theory Spec2Isabelle
  imports Complex_Main
begin

section \<open>Python and NumPy values\<close>

text \<open>
  The exceptions the modelled code can raise: Python's IndexError and ValueError, and
  LinAlgError of numpy/scipy. A computation that may raise returns \<open>exn + 'a\<close>, with
  \<open>Inl\<close> for the exception.
\<close>

datatype exn = IndexError | ValueError | LinAlgError

definition ebind :: "exn + 'a \<Rightarrow> ('a \<Rightarrow> exn + 'b) \<Rightarrow> exn + 'b" where
  "ebind r f = (case r of Inl e \<Rightarrow> Inl e | Inr v \<Rightarrow> f v)"

text \<open>Running a list of computations in order, stopping at the first exception.\<close>

fun collect :: "(exn + 'a) list \<Rightarrow> exn + 'a list" where
  "collect [] = Inr []"
| "collect (r # rs) =
     (case r of Inl e \<Rightarrow> Inl e
      | Inr v \<Rightarrow> (case collect rs of Inl e \<Rightarrow> Inl e | Inr vs \<Rightarrow> Inr (v # vs)))"

text \<open>
  A float64 is a value of a type \<open>'f\<close> that has \<open>+\<close>, \<open>-\<close>, \<open>*\<close>, \<open>/\<close>, \<open>0\<close>, \<open>1\<close> and an order,
  with no law assumed of them. The functions of numpy, scipy and math the code calls on
  floats are the fields of a record: what is proved for every such record holds for the
  rounded arithmetic of the machine as for the real numbers.
  The literals \<open>0.\<close> and \<open>1.\<close> are the \<open>0\<close> and \<open>1\<close> of the type; \<open>np_float\<close> is the conversion
  of a Python int to a float, also used for the literal \<open>2.\<close>; \<open>slogdet\<close> is the second
  component of \<open>np.linalg.slogdet\<close>; \<open>z ** 2.\<close> is \<open>z * z\<close>.
\<close>

record 'f numpy =
  np_sqrt :: "'f \<Rightarrow> 'f"
  np_log :: "'f \<Rightarrow> 'f"
  np_exp :: "'f \<Rightarrow> 'f"
  gammaln :: "'f \<Rightarrow> 'f"
  math_pi :: 'f
  np_float :: "int \<Rightarrow> 'f"
  np_isfinite :: "'f \<Rightarrow> bool"
  slogdet :: "'f list list \<Rightarrow> 'f"

text \<open>
  A 1-D array is the list of its entries, a 2-D array the list of its rows, a 3-D array
  the list of its matrices. \<open>x.ndim\<close> of the argument of the density evaluator is the
  constructor of an \<open>ndarray\<close>.
\<close>

datatype 'f ndarray = Scalar 'f | Vec "'f list" | Mat "'f list list"

fun ndim :: "'f ndarray \<Rightarrow> nat" where
  "ndim (Scalar _) = 0"
| "ndim (Vec _) = 1"
| "ndim (Mat _) = 2"

text \<open>
  The position an index \<open>i\<close> denotes in a sequence of \<open>n\<close> entries: \<open>i\<close> itself from
  \<open>0\<close> to \<open>n - 1\<close>, \<open>n + i\<close> from \<open>-n\<close> to \<open>-1\<close>, and IndexError outside.
\<close>

definition np_index :: "nat \<Rightarrow> int \<Rightarrow> exn + nat" where
  "np_index n i =
     (if 0 \<le> i \<and> i < int n then Inr (nat i)
      else if - int n \<le> i \<and> i < 0 then Inr (nat (int n + i))
      else Inl IndexError)"

text \<open>\<open>a[i]\<close> and \<open>a[i] = v\<close>.\<close>

definition np_getitem :: "'a list \<Rightarrow> int \<Rightarrow> exn + 'a" where
  "np_getitem xs i = ebind (np_index (length xs) i) (\<lambda>j. Inr (xs ! j))"

definition np_setitem :: "'a list \<Rightarrow> int \<Rightarrow> 'a \<Rightarrow> exn + 'a list" where
  "np_setitem xs i v = ebind (np_index (length xs) i) (\<lambda>j. Inr (xs[j := v]))"

text \<open>\<open>a.shape[1]\<close> of a 2-D array (an array without rows carries no column count here).\<close>

definition shape1 :: "'a list list \<Rightarrow> int" where
  "shape1 a = (case a of [] \<Rightarrow> 0 | r # _ \<Rightarrow> int (length r))"

text \<open>
  An elementwise binary operation on two 1-D arrays (or on the leading axis of two
  arrays): equal lengths pair up, a length of 1 is stretched, anything else raises
  ValueError.
\<close>

definition broadcast :: "('a \<Rightarrow> 'b \<Rightarrow> 'c) \<Rightarrow> 'a list \<Rightarrow> 'b list \<Rightarrow> exn + 'c list" where
  "broadcast f xs ys =
     (if length xs = length ys then Inr (map2 f xs ys)
      else if length xs = 1 then Inr (map (f (hd xs)) ys)
      else if length ys = 1 then Inr (map (\<lambda>x. f x (hd ys)) xs)
      else Inl ValueError)"

text \<open>\<open>a.sum()\<close> of a 1-D array, and the dot product of two rows.\<close>

fun np_sum :: "'f::{plus,zero} list \<Rightarrow> 'f" where
  "np_sum [] = 0"
| "np_sum (x # xs) = foldl (+) x xs"

definition dot :: "'f::{plus,times,zero} list \<Rightarrow> 'f list \<Rightarrow> 'f" where
  "dot xs ys = np_sum (map2 (*) xs ys)"

text \<open>\<open>a.max()\<close>: raises on an empty array.\<close>

fun np_max :: "'f::ord list \<Rightarrow> exn + 'f" where
  "np_max [] = Inl ValueError"
| "np_max (x # xs) = Inr (foldl (\<lambda>a b. if a \<le> b then b else a) x xs)"

section \<open>scipy.linalg.solve\_triangular\<close>

text \<open>
  \<open>solve_triangular(a, b, trans=0, lower=False, unit_diagonal=False, overwrite_b=False,
  check_finite=True)\<close> solves \<open>a z = b\<close> reading one triangle of \<open>a\<close> only: the lower one by
  forward substitution when \<open>lower\<close> is set, the upper one by back substitution otherwise
  (the default). The other triangle is never read.
\<close>

text \<open>Back substitution on the upper triangle; \<open>k\<close> is the index of the first row given.\<close>

fun back_subst :: "nat \<Rightarrow> 'f::{plus,minus,times,inverse,zero} list list \<Rightarrow> 'f list \<Rightarrow> 'f list" where
  "back_subst k (r # rs) (b # bs) =
     (let zs = back_subst (Suc k) rs bs
      in ((b - dot (drop (Suc k) r) zs) / (r ! k)) # zs)"
| "back_subst k _ _ = []"

text \<open>Forward substitution on the lower triangle; \<open>zs\<close> are the entries solved so far.\<close>

fun forward_subst :: "'f::{plus,minus,times,inverse,zero} list \<Rightarrow> 'f list list \<Rightarrow> 'f list \<Rightarrow> 'f list" where
  "forward_subst zs (r # rs) (b # bs) =
     forward_subst (zs @ [(b - dot (take (length zs) r) zs) / (r ! length zs)]) rs bs"
| "forward_subst zs _ _ = zs"

definition square :: "'a list list \<Rightarrow> bool" where
  "square a = list_all (\<lambda>r. length r = length a) a"

definition singular :: "'f::zero list list \<Rightarrow> bool" where
  "singular a = list_ex (\<lambda>i. a ! i ! i = 0) [0..<length a]"

definition solve_triangular ::
  "'f::{plus,minus,times,inverse,zero} numpy \<Rightarrow> 'f list list \<Rightarrow> 'f list \<Rightarrow> bool \<Rightarrow> bool \<Rightarrow> exn + 'f list" where
  "solve_triangular N a b lower check_finite =
     (if check_finite \<and> \<not> (list_all (list_all (np_isfinite N)) a \<and> list_all (np_isfinite N) b)
      then Inl ValueError
      else if \<not> square a then Inl ValueError
      else if length a \<noteq> length b then Inl ValueError
      else if singular a then Inl LinAlgError
      else Inr (if lower then forward_subst [] a b else back_subst 0 a b))"

section \<open>The trained model\<close>

text \<open>
  The class \<open>Wishart\<close> of \<open>gaussianlda.prior\<close> is not part of the sources at hand: its
  constructor is a parameter, and of its result the fields the model reads are kept.
\<close>

record 'f wishart =
  prior_kappa :: 'f
  prior_nu :: 'f
  prior_mu :: "'f list"

record 'f GaussianLDA =
  vocab :: "string list"
  alpha :: 'f
  vocab_embeddings :: "'f list list"
  embedding_size :: int
  num_tables :: int
  table_counts :: "'f list"
  table_means :: "'f list list"
  log_determinants :: "'f list"
  table_cholesky_ltriangular_mat :: "'f list list list"
  prior :: "'f wishart"
  k0mu0mu0T :: "'f list list"
  scaleTdistrn :: "'f list"
  nu :: "'f list"

text \<open>\<open>GaussianLDA.__init__\<close>.\<close>

definition GaussianLDA_init ::
  "'f::{plus,minus,times,inverse,zero,one} numpy \<Rightarrow> ('f list list \<Rightarrow> 'f \<Rightarrow> exn + 'f wishart) \<Rightarrow>
   'f list list \<Rightarrow> string list \<Rightarrow> int \<Rightarrow> 'f \<Rightarrow> 'f \<Rightarrow> 'f list \<Rightarrow> 'f list list \<Rightarrow> 'f list \<Rightarrow>
   'f list list list \<Rightarrow> exn + 'f GaussianLDA" where
  "GaussianLDA_init N Wishart emb voc K al kap counts means logdets chol =
     ebind (Wishart emb kap) (\<lambda>pr.
       let D = shape1 emb;
           k_n = map (\<lambda>c. prior_kappa pr + c) counts;
           nu_n = map (\<lambda>c. prior_nu pr + c) counts
       in Inr \<lparr> vocab = voc, alpha = al, vocab_embeddings = emb, embedding_size = D,
                num_tables = K, table_counts = counts, table_means = means,
                log_determinants = logdets, table_cholesky_ltriangular_mat = chol,
                prior = pr,
                k0mu0mu0T = map (\<lambda>a. map (\<lambda>b. prior_kappa pr * (a * b)) (prior_mu pr)) (prior_mu pr),
                scaleTdistrn =
                  map2 (\<lambda>k n. np_sqrt N ((k + 1) / (k * (n - np_float N D + 1)))) k_n nu_n,
                nu = map (\<lambda>c. prior_nu pr + c - np_float N D + 1) counts \<rparr>)"

section \<open>The density evaluators\<close>

text \<open>
  The expression of lines 272 to 278, for one table: \<open>n\<close> is \<open>nu\<close>, \<open>ld\<close> the entry of
  \<open>log_determinants\<close>, \<open>D\<close> the embedding size.
\<close>

definition t_logprob ::
  "'f::{plus,minus,times,inverse,one} numpy \<Rightarrow> int \<Rightarrow> 'f \<Rightarrow> 'f \<Rightarrow> 'f \<Rightarrow> 'f" where
  "t_logprob N D n ld val =
     gammaln N ((n + np_float N D) / np_float N 2) -
       (gammaln N (n / np_float N 2) +
        np_float N D / np_float N 2 * (np_log N n + np_log N (math_pi N)) +
        ld +
        (n + np_float N D) / np_float N 2 * np_log N (1 + val / n))"

text \<open>
  \<open>GaussianLDA.log_multivariate_tdensity\<close>. The first equation is the branch \<open>x.ndim > 1\<close>;
  the call of \<open>solve_triangular\<close> passes \<open>check_finite=False\<close> and leaves \<open>lower\<close> at its
  default.
\<close>

function (sequential) log_multivariate_tdensity ::
  "'f::{plus,minus,times,inverse,zero,one} numpy \<Rightarrow> 'f GaussianLDA \<Rightarrow> 'f ndarray \<Rightarrow> int \<Rightarrow>
   exn + 'f ndarray" where
  "log_multivariate_tdensity N self (Mat x) table_id =
     ebind (collect (map (\<lambda>xi.
         case log_multivariate_tdensity N self (Vec xi) table_id of
           Inl e \<Rightarrow> Inl e
         | Inr (Scalar v) \<Rightarrow> Inr v
         | Inr _ \<Rightarrow> Inl ValueError) x))
       (\<lambda>logprobs. Inr (Vec logprobs))"
| "log_multivariate_tdensity N self x table_id =
     ebind (np_getitem (table_counts self) table_id) (\<lambda>count.
       let k_n = prior_kappa (prior self) + count;
           nu_n = prior_nu (prior self) + count;
           scaleTdistrn = np_sqrt N ((k_n + 1) / (k_n * (nu_n - np_float N (embedding_size self) + 1)));
           nu = prior_nu (prior self) + count - np_float N (embedding_size self) + 1
       in
       ebind (np_getitem (table_means self) table_id) (\<lambda>mean.
       ebind (case x of Scalar s \<Rightarrow> Inr (map (\<lambda>m. s - m) mean)
                      | Vec v \<Rightarrow> broadcast (-) v mean
                      | Mat _ \<Rightarrow> Inl ValueError) (\<lambda>x_minus_mu.
       ebind (np_getitem (table_cholesky_ltriangular_mat self) table_id) (\<lambda>L.
       let ltriangular_chol = map (map (\<lambda>v. scaleTdistrn * v)) L in
       ebind (solve_triangular N ltriangular_chol x_minus_mu False False) (\<lambda>solved.
       let val = np_sum (map (\<lambda>z. z * z) solved) in
       ebind (np_getitem (log_determinants self) table_id) (\<lambda>ld.
         Inr (Scalar (t_logprob N (embedding_size self) nu ld val))))))))"
  by pat_completeness auto
termination
  by (relation "measure (\<lambda>(N, self, x, table_id). ndim x)") auto

text \<open>
  \<open>GaussianLDA.log_multivariate_tdensity_tables\<close>. \<open>x[None, :] - self.table_means\<close> subtracts
  every mean from \<open>x\<close>; \<open>self.scaleTdistrn[:, None, None] * ...\<close> pairs the scales with the
  factors along the leading axis; \<open>np.zeros(self.num_tables)\<close> raises for a negative size;
  the last expression is that of lines 299 to 305, operation by operation on arrays. Both
  arguments of \<open>solve_triangular\<close> after the first two are left at their defaults.
\<close>

definition log_multivariate_tdensity_tables ::
  "'f::{plus,minus,times,inverse,zero,one} numpy \<Rightarrow> 'f GaussianLDA \<Rightarrow> 'f list \<Rightarrow> exn + 'f list" where
  "log_multivariate_tdensity_tables N self x =
     ebind (collect (map (\<lambda>mean. broadcast (-) x mean) (table_means self))) (\<lambda>x_minus_mu.
     ebind (broadcast (\<lambda>s L. map (map (\<lambda>v. s * v)) L)
              (scaleTdistrn self) (table_cholesky_ltriangular_mat self)) (\<lambda>ltriangular_chol.
     if num_tables self < 0 then Inl ValueError else
     ebind (collect (map (\<lambda>table.
         ebind (np_getitem ltriangular_chol table) (\<lambda>a.
         ebind (np_getitem x_minus_mu table) (\<lambda>b.
         ebind (solve_triangular N a b False True) (\<lambda>table_solved.
           Inr (np_sum (map (\<lambda>z. z * z) table_solved))))))
         [0..num_tables self - 1])) (\<lambda>val.
     let D = np_float N (embedding_size self); two = np_float N 2 in
     ebind (broadcast (+)
              (map (\<lambda>n. gammaln N (n / two) + D / two * (np_log N n + np_log N (math_pi N))) (nu self))
              (log_determinants self)) (\<lambda>s1.
     ebind (broadcast (\<lambda>v n. v / n) val (nu self)) (\<lambda>q.
     ebind (broadcast (*) (map (\<lambda>n. (n + D) / two) (nu self)) (map (\<lambda>e. np_log N (1 + e)) q)) (\<lambda>s2.
     ebind (broadcast (+) s1 s2) (\<lambda>s3.
       broadcast (-) (map (\<lambda>n. gammaln N ((n + D) / two)) (nu self)) s3)))))))"

section \<open>The Gibbs sampler\<close>

text \<open>
  The generator behind \<open>np.random\<close> has a state of a type \<open>'r\<close>. \<open>randint R r high size\<close>
  and \<open>choice R r a p\<close> are the two calls the sampler makes: each returns its draw and the
  next state, or raises.
\<close>

record ('f, 'r) np_random =
  randint :: "'r \<Rightarrow> int \<Rightarrow> nat \<Rightarrow> exn + int list \<times> 'r"
  choice :: "'r \<Rightarrow> int \<Rightarrow> 'f list \<Rightarrow> exn + int \<times> 'r"

text \<open>
  What numpy promises of them: \<open>randint(high, size=n)\<close> returns \<open>n\<close> values in \<open>[0, high)\<close>,
  \<open>choice(a, p=p)\<close> a value in \<open>[0, a)\<close>.
\<close>

definition rand_ok :: "('f, 'r) np_random \<Rightarrow> bool" where
  "rand_ok R \<longleftrightarrow>
     (\<forall>r high n A r'. randint R r high n = Inr (A, r') \<longrightarrow>
        length A = n \<and> (\<forall>a \<in> set A. 0 \<le> a \<and> a < high)) \<and>
     (\<forall>r a p i r'. choice R r a p = Inr (i, r') \<longrightarrow> 0 \<le> i \<and> i < a)"

text \<open>\<open>np.bincount(xs, minlength=n)\<close>.\<close>

definition np_bincount :: "int list \<Rightarrow> int \<Rightarrow> exn + int list" where
  "np_bincount xs minlength =
     (if list_ex (\<lambda>x. x < 0) xs \<or> minlength < 0 then Inl ValueError
      else Inr (map (\<lambda>k. int (count_list xs (int k)))
                  [0..<max (nat minlength) (nat (foldr max xs (-1) + 1))]))"

text \<open>
  The variables of one call of \<open>sample\<close>, with the model object and the generator state.
\<close>

record ('f, 'r) frame =
  model :: "'f GaussianLDA"
  table_assignments :: "int list"
  doc_table_counts :: "int list"
  rng :: 'r

text \<open>
  The point of the call a recorded frame was taken at: after the two lines before the
  loops, after the decrement of a token's old table, after the store of its new one.
\<close>

datatype point = Started | Retracted | Committed

text \<open>Lines 221 to 223: remove the customer from its old table.\<close>

definition retract :: "('f, 'r) frame \<Rightarrow> nat \<Rightarrow> exn + ('f, 'r) frame" where
  "retract s w =
     ebind (np_getitem (table_assignments s) (int w)) (\<lambda>old_table_id.
     ebind (np_setitem (table_assignments s) (int w) (-1)) (\<lambda>A.
     ebind (np_getitem (doc_table_counts s) old_table_id) (\<lambda>h.
     ebind (np_setitem (doc_table_counts s) old_table_id (h - 1)) (\<lambda>H.
       Inr (s\<lparr>table_assignments := A, doc_table_counts := H\<rparr>)))))"

text \<open>Lines 227 to 237: the posterior over the tables.\<close>

definition posterior ::
  "'f::{plus,minus,times,inverse,zero,one,ord} numpy \<Rightarrow> 'f GaussianLDA \<Rightarrow> int list \<Rightarrow> 'f list \<Rightarrow>
   exn + 'f list" where
  "posterior N self H x =
     (let counts = map (\<lambda>h. np_float N h + alpha self) H in
      ebind (log_multivariate_tdensity_tables N self x) (\<lambda>log_lls.
      ebind (broadcast (+) (map (np_log N) counts) log_lls) (\<lambda>log_posteriors.
      ebind (np_max log_posteriors) (\<lambda>mx.
      let p = map (\<lambda>l. np_exp N (l - mx)) log_posteriors;
          total = np_sum p
      in Inr (map (\<lambda>v. v / total) p)))))"

text \<open>Lines 239 to 243: draw the new table and store it.\<close>

definition commit ::
  "('f, 'r) np_random \<Rightarrow> ('f, 'r) frame \<Rightarrow> nat \<Rightarrow> 'f list \<Rightarrow> exn + ('f, 'r) frame" where
  "commit R s w p =
     ebind (choice R (rng s) (num_tables (model s)) p) (\<lambda>(new_table_id, r').
     ebind (np_getitem (doc_table_counts s) new_table_id) (\<lambda>h.
     ebind (np_setitem (doc_table_counts s) new_table_id (h + 1)) (\<lambda>H.
     ebind (np_setitem (table_assignments s) (int w) new_table_id) (\<lambda>A.
       Inr (s\<lparr>table_assignments := A, doc_table_counts := H, rng := r'\<rparr>)))))"

text \<open>
  The body of the inner loop for the token \<open>cust_id\<close> at position \<open>w\<close>: the frames it
  passes through, and the frame it ends in or the exception it raises.
\<close>

definition token ::
  "'f::{plus,minus,times,inverse,zero,one,ord} numpy \<Rightarrow> ('f, 'r) np_random \<Rightarrow> ('f, 'r) frame \<Rightarrow>
   nat \<times> int \<Rightarrow> (point \<times> ('f, 'r) frame) list \<times> (exn + ('f, 'r) frame)" where
  "token N R s wc =
     (case wc of (w, cust_id) \<Rightarrow>
      (case np_getitem (vocab_embeddings (model s)) cust_id of
         Inl e \<Rightarrow> ([], Inl e)
       | Inr x \<Rightarrow>
          (case retract s w of
             Inl e \<Rightarrow> ([], Inl e)
           | Inr s1 \<Rightarrow>
              (case ebind (posterior N (model s1) (doc_table_counts s1) x) (commit R s1 w) of
                 Inl e \<Rightarrow> ([(Retracted, s1)], Inl e)
               | Inr s2 \<Rightarrow> ([(Retracted, s1), (Committed, s2)], Inr s2)))))"

text \<open>The inner loop over \<open>enumerate(doc)\<close>.\<close>

fun sweep ::
  "'f::{plus,minus,times,inverse,zero,one,ord} numpy \<Rightarrow> ('f, 'r) np_random \<Rightarrow> ('f, 'r) frame \<Rightarrow>
   (nat \<times> int) list \<Rightarrow> (point \<times> ('f, 'r) frame) list \<times> (exn + ('f, 'r) frame)" where
  "sweep N R s [] = ([], Inr s)"
| "sweep N R s (wc # rest) =
     (case token N R s wc of
        (tr, Inl e) \<Rightarrow> (tr, Inl e)
      | (tr, Inr s') \<Rightarrow> (case sweep N R s' rest of (tr', out) \<Rightarrow> (tr @ tr', out)))"

text \<open>The outer loop over \<open>range(num_iterations)\<close>.\<close>

fun sweeps ::
  "'f::{plus,minus,times,inverse,zero,one,ord} numpy \<Rightarrow> ('f, 'r) np_random \<Rightarrow> int list \<Rightarrow> nat \<Rightarrow>
   ('f, 'r) frame \<Rightarrow> (point \<times> ('f, 'r) frame) list \<times> (exn + ('f, 'r) frame)" where
  "sweeps N R doc 0 s = ([], Inr s)"
| "sweeps N R doc (Suc n) s =
     (case sweep N R s (enumerate 0 doc) of
        (tr, Inl e) \<Rightarrow> (tr, Inl e)
      | (tr, Inr s') \<Rightarrow> (case sweeps N R doc n s' of (tr', out) \<Rightarrow> (tr @ tr', out)))"

text \<open>
  \<open>GaussianLDA.sample\<close> with the frames it passes through. \<open>range(num_iterations)\<close> is
  empty for a negative \<open>num_iterations\<close>.
\<close>

definition sample_run ::
  "'f::{plus,minus,times,inverse,zero,one,ord} numpy \<Rightarrow> ('f, 'r) np_random \<Rightarrow> 'f GaussianLDA \<Rightarrow>
   int list \<Rightarrow> int \<Rightarrow> 'r \<Rightarrow> (point \<times> ('f, 'r) frame) list \<times> (exn + ('f, 'r) frame)" where
  "sample_run N R self doc num_iterations r =
     (case randint R r (num_tables self) (length doc) of
        Inl e \<Rightarrow> ([], Inl e)
      | Inr (A, r') \<Rightarrow>
         (case np_bincount A (num_tables self) of
            Inl e \<Rightarrow> ([], Inl e)
          | Inr H \<Rightarrow>
             (let s = \<lparr>model = self, table_assignments = A, doc_table_counts = H, rng = r'\<rparr>
              in case sweeps N R doc (nat num_iterations) s of
                   (tr, out) \<Rightarrow> ((Started, s) # tr, out))))"

text \<open>\<open>GaussianLDA.sample\<close>: what the call returns or raises.\<close>

definition sample ::
  "'f::{plus,minus,times,inverse,zero,one,ord} numpy \<Rightarrow> ('f, 'r) np_random \<Rightarrow> 'f GaussianLDA \<Rightarrow>
   int list \<Rightarrow> int \<Rightarrow> 'r \<Rightarrow> exn + int list" where
  "sample N R self doc num_iterations r =
     (case snd (sample_run N R self doc num_iterations r) of
        Inl e \<Rightarrow> Inl e
      | Inr s \<Rightarrow> Inr (table_assignments s))"

section \<open>The loader of the Java format\<close>

text \<open>
  Lines 151 to 155 of \<open>GaussianLDA.load_from_java\<close>: the log-determinants the loader hands to
  the constructor, computed from the array of Cholesky factors it has read (an array of
  \<open>num_tables\<close> matrices by its allocation). Reading the files is not modelled.
\<close>

definition load_from_java_log_determinants ::
  "'f::times numpy \<Rightarrow> 'f list list list \<Rightarrow> nat \<Rightarrow> 'f list" where
  "load_from_java_log_determinants N chol_mats K =
     map (\<lambda>table. np_float N 2 * slogdet N (chol_mats ! table)) [0..<K]"

section \<open>What the specification says\<close>

text \<open>
  The single-table evaluator in the words of the specification: centre, scale the factor,
  solve the lower-triangular system by forward substitution, take the squared norm, and
  evaluate the Student-t formula with \<open>(D/2) ln(\<nu> \<pi>)\<close>.
\<close>

definition spec_logDensity ::
  "'f::{plus,minus,times,inverse,zero,one} numpy \<Rightarrow> 'f GaussianLDA \<Rightarrow> 'f list \<Rightarrow> nat \<Rightarrow> 'f" where
  "spec_logDensity N self x t =
     (let D = np_float N (embedding_size self); two = np_float N 2;
          n_t = table_counts self ! t;
          k_n = prior_kappa (prior self) + n_t;
          nu_n = prior_nu (prior self) + n_t;
          scale = np_sqrt N ((k_n + 1) / (k_n * (nu_n - D + 1)));
          dof = prior_nu (prior self) + n_t - D + 1;
          d = map2 (-) x (table_means self ! t);
          L' = map (map (\<lambda>v. scale * v)) (table_cholesky_ltriangular_mat self ! t);
          z = forward_subst [] L' d;
          val = np_sum (map (\<lambda>v. v * v) z)
      in gammaln N ((dof + D) / two) -
           (gammaln N (dof / two) + D / two * np_log N (dof * math_pi N) +
            log_determinants self ! t + (dof + D) / two * np_log N (1 + val / dof)))"

text \<open>
  Steps (b) and (c) of a transition of the sampler in the words of the specification, for
  the histogram \<open>H\<close> after the retract and the embedding \<open>x\<close> of the token: for every table
  \<open>t\<close> the unnormalised log-posterior \<open>ln(H[t] + \<alpha>) + logDensity(x, t)\<close>, with \<open>logDensity\<close>
  as the specification defines it; then the largest entry is subtracted from all entries,
  they are exponentiated and divided by their sum.
\<close>

definition spec_log_posterior ::
  "'f::linordered_field numpy \<Rightarrow> 'f GaussianLDA \<Rightarrow> int list \<Rightarrow> 'f list \<Rightarrow> 'f list" where
  "spec_log_posterior N self H x =
     map (\<lambda>t. np_log N (np_float N (H ! t) + alpha self) + spec_logDensity N self x t)
       [0..<nat (num_tables self)]"

definition spec_stabilize :: "'f::linordered_field numpy \<Rightarrow> 'f list \<Rightarrow> 'f list" where
  "spec_stabilize N lp =
     (let e = map (\<lambda>l. np_exp N (l - Max (set lp))) lp
      in map (\<lambda>v. v / sum_list e) e)"

definition spec_posterior ::
  "'f::linordered_field numpy \<Rightarrow> 'f GaussianLDA \<Rightarrow> int list \<Rightarrow> 'f list \<Rightarrow> 'f list" where
  "spec_posterior N self H x = spec_stabilize N (spec_log_posterior N self H x)"

section \<open>Shapes\<close>

text \<open>
  The arrays of a model agree on \<open>K\<close> tables and \<open>D\<close> dimensions, and the two caches of
  the constructor are those of the counts.
\<close>

definition consistent :: "'f::{plus,minus,times,inverse,one} numpy \<Rightarrow> 'f GaussianLDA \<Rightarrow> bool" where
  "consistent N self \<longleftrightarrow>
     (let K = nat (num_tables self); D = nat (embedding_size self) in
      0 \<le> num_tables self \<and> 0 \<le> embedding_size self \<and>
      length (table_counts self) = K \<and>
      length (table_means self) = K \<and> list_all (\<lambda>mean. length mean = D) (table_means self) \<and>
      length (log_determinants self) = K \<and>
      length (table_cholesky_ltriangular_mat self) = K \<and>
      list_all (\<lambda>L. length L = D \<and> list_all (\<lambda>row. length row = D) L)
        (table_cholesky_ltriangular_mat self) \<and>
      scaleTdistrn self =
        map (\<lambda>c. np_sqrt N ((prior_kappa (prior self) + c + 1) /
                 ((prior_kappa (prior self) + c) *
                  (prior_nu (prior self) + c - np_float N (embedding_size self) + 1))))
          (table_counts self) \<and>
      nu self =
        map (\<lambda>c. prior_nu (prior self) + c - np_float N (embedding_size self) + 1)
          (table_counts self))"

section \<open>Exact arithmetic, and a small model\<close>

text \<open>The determinant by expansion along the first row.\<close>

function det :: "real list list \<Rightarrow> real" where
  "det [] = 1"
| "det (r # rs) =
     (\<Sum>j\<leftarrow>[0..<length r]. (- 1) ^ j * (r ! j) * det (map (\<lambda>row. take j row @ drop (Suc j) row) rs))"
  by pat_completeness auto
termination
  by (relation "measure length") auto

text \<open>The logarithm of the Gamma function on the positive reals, as Euler's limit.\<close>

definition ln_Gamma :: "real \<Rightarrow> real" where
  "ln_Gamma x =
     lim (\<lambda>n. x * ln (real n) + (\<Sum>k = 1..n. ln (real k)) - (\<Sum>k = 0..n. ln (x + real k)))"

text \<open>
  The arithmetic of the reals in the place of the floats, to evaluate the definitions on
  concrete models: it rounds nothing and has no infinity and no NaN. The general statements
  are for every arithmetic \<open>N\<close>; this one appears in statements at concrete inputs only,
  whose numbers are small integers and their logarithms.
\<close>

definition real_numpy :: "real numpy" where
  "real_numpy =
     \<lparr> np_sqrt = sqrt, np_log = ln, np_exp = exp, gammaln = ln_Gamma, math_pi = pi,
       np_float = real_of_int, np_isfinite = (\<lambda>_. True), slogdet = (\<lambda>a. ln \<bar>det a\<bar>) \<rparr>"

text \<open>A generator that always draws table 0, and a prior with \<open>\<nu>\<^sub>0 = 3\<close> and mean 0.\<close>

definition zero_random :: "(real, unit) np_random" where
  "zero_random =
     \<lparr> randint = (\<lambda>r high n. if high \<le> 0 then Inl ValueError else Inr (replicate n 0, r)),
       choice = (\<lambda>r a p. if a \<le> 0 then Inl ValueError else Inr (0, r)) \<rparr>"

definition Wishart3 :: "real list list \<Rightarrow> real \<Rightarrow> exn + real wishart" where
  "Wishart3 emb kap = Inr \<lparr> prior_kappa = kap, prior_nu = 3, prior_mu = [0, 0] \<rparr>"

text \<open>
  Two tables in two dimensions over a vocabulary of two words; the Cholesky factor of
  table 0 has a non-zero entry below the diagonal.
\<close>

definition example_embeddings :: "real list list" where
  "example_embeddings = [[1, 1], [0, 0]]"

definition example_model :: "real GaussianLDA" where
  "example_model =
     \<lparr> vocab = [''a'', ''b''], alpha = 1, vocab_embeddings = example_embeddings,
       embedding_size = 2, num_tables = 2, table_counts = [0, 0],
       table_means = [[0, 0], [0, 0]], log_determinants = [0, 0],
       table_cholesky_ltriangular_mat = [[[1, 0], [1, 1]], [[1, 0], [0, 1]]],
       prior = \<lparr> prior_kappa = 1, prior_nu = 3, prior_mu = [0, 0] \<rparr>,
       k0mu0mu0T = [[0, 0], [0, 0]], scaleTdistrn = [1, 1], nu = [2, 2] \<rparr>"

text \<open>The example model with a singular Cholesky factor for table 1.\<close>

definition singular_model :: "real GaussianLDA" where
  "singular_model =
     example_model \<lparr> table_cholesky_ltriangular_mat := [[[1, 0], [1, 1]], [[1, 0], [0, 0]]] \<rparr>"

text \<open>
  A generator that always draws table 0 and whose state is the last vector of
  probabilities \<open>choice\<close> was called with.
\<close>

definition last_p_random :: "(real, real list) np_random" where
  "last_p_random =
     \<lparr> randint = (\<lambda>r high n. if high \<le> 0 then Inl ValueError else Inr (replicate n 0, r)),
       choice = (\<lambda>r a p. if a \<le> 0 then Inl ValueError else Inr (0, p)) \<rparr>"

section \<open>Properties of a run\<close>

text \<open>
  A run of the sampler satisfies \<open>P\<close> at every recorded frame, and \<open>I\<close> in the frame it
  ends in when it does not raise.
\<close>

definition run_sat ::
  "(point \<times> ('f, 'r) frame \<Rightarrow> bool) \<Rightarrow> (('f, 'r) frame \<Rightarrow> bool) \<Rightarrow>
   (point \<times> ('f, 'r) frame) list \<times> (exn + ('f, 'r) frame) \<Rightarrow> bool" where
  "run_sat P I run \<longleftrightarrow> list_all P (fst run) \<and> (\<forall>s. snd run = Inr s \<longrightarrow> I s)"

section \<open>Helper facts\<close>

lemma ebind_simps [simp]:
  "ebind (Inl e) f = Inl e"
  "ebind (Inr v) f = f v"
  by (simp_all add: ebind_def)

lemma ebind_Inr_iff: "ebind r f = Inr v \<longleftrightarrow> (\<exists>u. r = Inr u \<and> f u = Inr v)"
  by (cases r) auto

lemma ebind_Inl_iff: "ebind r f = Inl e \<longleftrightarrow> r = Inl e \<or> (\<exists>u. r = Inr u \<and> f u = Inl e)"
  by (cases r) auto

lemma collect_map_Inr_id [simp]: "collect (map Inr vs) = Inr vs"
  by (induction vs) auto

lemma collect_Inr_D: "collect rs = Inr vs \<Longrightarrow> rs = map Inr vs"
  by (induction rs arbitrary: vs) (auto split: sum.splits)

lemma collect_Inr_iff: "collect rs = Inr vs \<longleftrightarrow> rs = map Inr vs"
  using collect_Inr_D by auto

lemma np_index_nat: "i < n \<Longrightarrow> np_index n (int i) = Inr i"
  by (simp add: np_index_def)

lemma np_getitem_nat: "i < length xs \<Longrightarrow> np_getitem xs (int i) = Inr (xs ! i)"
  by (simp add: np_getitem_def np_index_nat)

lemma np_setitem_nat: "i < length xs \<Longrightarrow> np_setitem xs (int i) v = Inr (xs[i := v])"
  by (simp add: np_setitem_def np_index_nat)

lemma broadcast_same: "length xs = length ys \<Longrightarrow> broadcast f xs ys = Inr (map2 f xs ys)"
  by (simp add: broadcast_def)

lemma upto_as_upt: "[0..int n - 1] = map int [0..<n]"
proof (induction n)
  case 0
  show ?case by simp
next
  case (Suc n)
  have "[0..int (Suc n) - 1] = [0..int n - 1] @ [int n]"
    using upto_rec2 [of 0 "int n"] by simp
  with Suc show ?case by simp
qed

lemma real_numpy_simps [simp]:
  "np_sqrt real_numpy = sqrt" "np_log real_numpy = ln" "np_exp real_numpy = exp"
  "gammaln real_numpy = ln_Gamma" "math_pi real_numpy = pi" "np_float real_numpy = real_of_int"
  "np_isfinite real_numpy = (\<lambda>_. True)" "slogdet real_numpy = (\<lambda>a. ln \<bar>det a\<bar>)"
  by (simp_all add: real_numpy_def)

lemma density_Vec_is_Scalar:
  "log_multivariate_tdensity N self (Vec v) t = Inr r \<Longrightarrow> \<exists>y. r = Scalar y"
  by (auto simp: ebind_Inr_iff Let_def)

section \<open>The constructor (C8)\<close>

text \<open>
  C8, as the code has it. The constructor never compares the shapes of its arrays: it
  raises exactly when the constructor of the prior raises, which sees the embeddings and
  \<open>kappa\<close> only; otherwise the counts, means, log-determinants and Cholesky factors are
  stored as given, whatever their leading and trailing dimensions, with \<open>num_tables\<close> as
  passed, and the two caches have the length of the counts.
\<close>

theorem init_never_checks_shapes:
  "(\<forall>e. GaussianLDA_init N Wishart emb voc K al kap counts means logdets chol = Inl e
        \<longleftrightarrow> Wishart emb kap = Inl e) \<and>
   (\<forall>m. GaussianLDA_init N Wishart emb voc K al kap counts means logdets chol = Inr m \<longrightarrow>
        num_tables m = K \<and> table_counts m = counts \<and> table_means m = means \<and>
        log_determinants m = logdets \<and> table_cholesky_ltriangular_mat m = chol \<and>
        length (scaleTdistrn m) = length counts \<and> length (nu m) = length counts)"
  by (cases "Wishart emb kap") (auto simp: GaussianLDA_init_def Let_def)

text \<open>
  C8 as stated fails: with \<open>num_tables = 2\<close>, three counts, one mean of length 1, one
  log-determinant and no Cholesky factor, the constructor returns a model.
\<close>

theorem init_accepts_mismatched_shapes:
  "\<not> isl (GaussianLDA_init real_numpy Wishart3 example_embeddings [''a'', ''b''] 2 1 1
            [0, 0, 0] [[0]] [0] [])"
  by (simp add: GaussianLDA_init_def Wishart3_def Let_def)

theorem init_never_checks_shapes_witness:
  "\<exists>m. GaussianLDA_init real_numpy Wishart3 example_embeddings [''a'', ''b''] 2 1 1
            [0, 0, 0] [[0]] [0] [] = Inr m \<and>
       table_counts m = [0, 0, 0] \<and> table_means m = [[0]] \<and> length (nu m) = 3"
proof -
  obtain m where m: "GaussianLDA_init real_numpy Wishart3 example_embeddings [''a'', ''b''] 2 1 1
            [0, 0, 0] [[0]] [0] [] = Inr m"
    by (simp add: GaussianLDA_init_def Wishart3_def Let_def)
  from init_never_checks_shapes [of real_numpy Wishart3 example_embeddings "[''a'', ''b'']" 2 1 1
      "[0, 0, 0]" "[[0]]" "[0]" "[]"] m
  show ?thesis by simp
qed

section \<open>The single-table evaluator on a batch (C10)\<close>

text \<open>
  C10. On a 2-D argument \<open>X\<close> the evaluator returns a vector exactly when it returns a
  scalar on every row of \<open>X\<close>, and the \<open>i\<close>-th entry of the vector is what it returns on
  the \<open>i\<close>-th row: it is the row-wise map of itself (and raises when a row raises).
\<close>

theorem density_of_batch_is_rowwise:
  "log_multivariate_tdensity N self (Mat X) t = Inr r \<longleftrightarrow>
   (\<exists>ys. r = Vec ys \<and> length ys = length X \<and>
      (\<forall>i<length X. log_multivariate_tdensity N self (Vec (X ! i)) t = Inr (Scalar (ys ! i))))"
proof -
  let ?g = "\<lambda>xi. case log_multivariate_tdensity N self (Vec xi) t of
           Inl e \<Rightarrow> Inl e | Inr (Scalar v) \<Rightarrow> Inr v | Inr _ \<Rightarrow> Inl ValueError"
  have g: "?g xi = Inr y \<longleftrightarrow> log_multivariate_tdensity N self (Vec xi) t = Inr (Scalar y)" for xi y
    by (auto split: sum.splits ndarray.splits dest: density_Vec_is_Scalar)
  have "log_multivariate_tdensity N self (Mat X) t = Inr r \<longleftrightarrow>
        (\<exists>ys. r = Vec ys \<and> map ?g X = map Inr ys)"
    by (auto simp: ebind_Inr_iff collect_Inr_iff)
  also have "\<dots> \<longleftrightarrow> (\<exists>ys. r = Vec ys \<and> length ys = length X \<and>
      (\<forall>i<length X. ?g (X ! i) = Inr (ys ! i)))"
    by (auto simp: list_eq_iff_nth_eq)
  finally show ?thesis by (simp only: g)
qed

theorem density_of_batch_is_rowwise_witness:
  "log_multivariate_tdensity real_numpy example_model (Mat [[1, 1]]) 0 =
     Inr (Vec [ln_Gamma 2 - (ln_Gamma 1 + (ln 2 + ln pi) + 0 + 2 * ln 2)])"
proof -
  have row: "log_multivariate_tdensity real_numpy example_model (Vec [1, 1]) 0 =
     Inr (Scalar (ln_Gamma 2 - (ln_Gamma 1 + (ln 2 + ln pi) + 0 + 2 * ln 2)))"
    by (simp add: example_model_def np_getitem_def np_index_def broadcast_def
      solve_triangular_def square_def singular_def dot_def t_logprob_def)
  show ?thesis
    using density_of_batch_is_rowwise [of real_numpy example_model "[[1, 1]]" 0
        "Vec [ln_Gamma 2 - (ln_Gamma 1 + (ln 2 + ln pi) + 0 + 2 * ln 2)]"] row
    by simp
qed

section \<open>The triangle the evaluator solves with (C1)\<close>

text \<open>
  C1 says that the evaluator solves the lower-triangular system \<open>L' z = d\<close> by forward
  substitution. The code calls \<open>solve_triangular\<close> without \<open>lower=True\<close>, so the upper
  triangle of the lower-triangular factor is read, which is its diagonal. In the example
  model (\<open>\<kappa>\<^sub>0 = 1\<close>, \<open>\<nu>\<^sub>0 = 3\<close>, \<open>D = 2\<close>, count 0, hence scale 1 and \<open>\<nu> = 2\<close>), with the factor
  \<open>[[1, 0], [1, 1]]\<close> of table 0, mean 0 and \<open>x = (1, 1)\<close>: the code solves to \<open>z = (1, 1)\<close>,
  \<open>val = 2\<close> and the last term \<open>2 ln 2\<close>; forward substitution gives \<open>z = (1, 0)\<close>, \<open>val = 1\<close>
  and the last term \<open>2 ln (3/2)\<close>. The two densities differ.
\<close>

theorem tdensity_reads_upper_triangle:
  "log_multivariate_tdensity real_numpy example_model (Vec [1, 1]) 0 =
     Inr (Scalar (ln_Gamma 2 - (ln_Gamma 1 + (ln 2 + ln pi) + 0 + 2 * ln 2))) \<and>
   spec_logDensity real_numpy example_model [1, 1] 0 =
     ln_Gamma 2 - (ln_Gamma 1 + ln (2 * pi) + 0 + 2 * ln (3 / 2)) \<and>
   log_multivariate_tdensity real_numpy example_model (Vec [1, 1]) 0 \<noteq>
     Inr (Scalar (spec_logDensity real_numpy example_model [1, 1] 0))"
proof -
  have c: "log_multivariate_tdensity real_numpy example_model (Vec [1, 1]) 0 =
     Inr (Scalar (ln_Gamma 2 - (ln_Gamma 1 + (ln 2 + ln pi) + 0 + 2 * ln 2)))"
    by (simp add: example_model_def np_getitem_def np_index_def broadcast_def
      solve_triangular_def square_def singular_def dot_def t_logprob_def)
  have s: "spec_logDensity real_numpy example_model [1, 1] 0 =
     ln_Gamma 2 - (ln_Gamma 1 + ln (2 * pi) + 0 + 2 * ln (3 / 2))"
    by (simp add: spec_logDensity_def example_model_def dot_def Let_def)
  have "ln (2 * pi) = ln 2 + ln pi"
    by (simp add: ln_mult)
  moreover have "ln (2::real) \<noteq> ln (3 / 2)"
    by simp
  ultimately have "ln_Gamma 2 - (ln_Gamma 1 + (ln 2 + ln pi) + 0 + 2 * ln 2) \<noteq>
     ln_Gamma 2 - (ln_Gamma 1 + ln (2 * pi) + 0 + 2 * ln (3 / 2))"
    by simp
  with c s show ?thesis by simp
qed

section \<open>The log-determinants of the Java loader (C6)\<close>

text \<open>
  C6 says that the loader stores, as the half-log-determinant of a table's covariance, the
  log-determinant of the table's Cholesky factor. The constructor's comment says the same
  of the field, and both evaluators add the field as it is. The loader stores twice that:
  for the factor \<open>[[2, 0], [0, 1]]\<close> it stores \<open>2 ln 2\<close>, and the log-determinant of the factor
  is \<open>ln 2\<close>.
\<close>

theorem java_loader_stores_full_log_determinant:
  "load_from_java_log_determinants real_numpy [[[2, 0], [0, 1]]] 1 = [2 * ln 2] \<and>
   slogdet real_numpy [[2, 0], [0, 1]] = ln 2 \<and>
   load_from_java_log_determinants real_numpy [[[2, 0], [0, 1]]] 1 \<noteq>
     [slogdet real_numpy [[2, 0], [0, 1]]]"
  by (simp add: load_from_java_log_determinants_def)

section \<open>The evaluator for all tables against the single one (C3)\<close>

lemma collect_map_Inr: "collect (map (\<lambda>x. Inr (f x)) xs) = Inr (map f xs)"
  by (induction xs) auto

lemma collect_broadcast_rows:
  assumes "list_all (\<lambda>r. length r = length x) rows"
  shows "collect (map (\<lambda>r. broadcast f x r) rows) = Inr (map (\<lambda>r. map2 f x r) rows)"
proof -
  have "map (\<lambda>r. broadcast f x r) rows = map (\<lambda>r. Inr (map2 f x r)) rows"
    using assms by (auto simp: list_all_iff broadcast_same)
  then show ?thesis by (simp only: collect_map_Inr)
qed

lemma consistentD:
  assumes "consistent N self"
  shows "0 \<le> num_tables self" "0 \<le> embedding_size self"
    "length (table_counts self) = nat (num_tables self)"
    "length (table_means self) = nat (num_tables self)"
    "list_all (\<lambda>mean. length mean = nat (embedding_size self)) (table_means self)"
    "length (log_determinants self) = nat (num_tables self)"
    "length (table_cholesky_ltriangular_mat self) = nat (num_tables self)"
    "scaleTdistrn self =
        map (\<lambda>c. np_sqrt N ((prior_kappa (prior self) + c + 1) /
                 ((prior_kappa (prior self) + c) *
                  (prior_nu (prior self) + c - np_float N (embedding_size self) + 1))))
          (table_counts self)"
    "nu self =
        map (\<lambda>c. prior_nu (prior self) + c - np_float N (embedding_size self) + 1)
          (table_counts self)"
  using assms by (simp_all add: consistent_def Let_def)

lemma init_consistent:
  assumes "GaussianLDA_init N Wishart emb voc K al kap counts means logdets chol = Inr m"
    and "0 \<le> K" and "length counts = nat K" and "length means = nat K"
    and "list_all (\<lambda>mean. int (length mean) = shape1 emb) means"
    and "length logdets = nat K" and "length chol = nat K"
    and "list_all (\<lambda>L. int (length L) = shape1 emb \<and>
           list_all (\<lambda>row. int (length row) = shape1 emb) L) chol"
  shows "consistent N m"
proof -
  from assms(1) obtain pr where pr: "Wishart emb kap = Inr pr"
    by (auto simp: GaussianLDA_init_def ebind_Inr_iff)
  have D: "0 \<le> shape1 emb" by (simp add: shape1_def split: list.splits)
  have eq: "\<And>n::nat. (int n = shape1 emb) = (n = nat (shape1 emb))" using D by auto
  from assms(1) pr have m: "m = \<lparr> vocab = voc, alpha = al, vocab_embeddings = emb,
      embedding_size = shape1 emb,
                num_tables = K, table_counts = counts, table_means = means,
                log_determinants = logdets, table_cholesky_ltriangular_mat = chol,
                prior = pr,
                k0mu0mu0T = map (\<lambda>a. map (\<lambda>b. prior_kappa pr * (a * b)) (prior_mu pr)) (prior_mu pr),
                scaleTdistrn =
                  map2 (\<lambda>k n. np_sqrt N ((k + 1) / (k * (n - np_float N (shape1 emb) + 1))))
                   (map (\<lambda>c. prior_kappa pr + c) counts) (map (\<lambda>c. prior_nu pr + c) counts),
                nu = map (\<lambda>c. prior_nu pr + c - np_float N (shape1 emb) + 1) counts \<rparr>"
    by (simp add: GaussianLDA_init_def Let_def)
  have sc: "map2 (\<lambda>k n. np_sqrt N ((k + 1) / (k * (n - np_float N (shape1 emb) + 1))))
                   (map (\<lambda>c. prior_kappa pr + c) counts) (map (\<lambda>c. prior_nu pr + c) counts)
     = map (\<lambda>c. np_sqrt N ((prior_kappa pr + c + 1) /
                 ((prior_kappa pr + c) * (prior_nu pr + c - np_float N (shape1 emb) + 1)))) counts"
    by (induction counts) simp_all
  show ?thesis
    using assms(2-) D unfolding m consistent_def Let_def
    by (simp add: sc eq)
qed

lemma example_model_init:
  "GaussianLDA_init real_numpy Wishart3 example_embeddings [''a'', ''b''] 2 1 1 [0, 0]
     [[0, 0], [0, 0]] [0, 0] [[[1, 0], [1, 1]], [[1, 0], [0, 1]]] = Inr example_model"
  by (simp add: GaussianLDA_init_def Wishart3_def example_model_def example_embeddings_def
      shape1_def Let_def)

lemma example_model_consistent: "consistent real_numpy example_model"
  by (rule init_consistent [OF example_model_init])
     (simp_all add: example_embeddings_def shape1_def)

lemma upto_0_1: "[0..(1::int)] = [0, 1]"
  by (simp add: upto.simps)

lemma example_tables:
  "log_multivariate_tdensity_tables real_numpy example_model [1, 1] =
     Inr [ln_Gamma 2 - (ln_Gamma 1 + (ln 2 + ln pi) + 0 + 2 * ln 2),
          ln_Gamma 2 - (ln_Gamma 1 + (ln 2 + ln pi) + 0 + 2 * ln 2)]"
  by (simp add: log_multivariate_tdensity_tables_def example_model_def broadcast_def
      upto_0_1 np_getitem_def np_index_def solve_triangular_def square_def singular_def dot_def
      add_divide_distrib)

lemma ebind_cong: "(\<And>v. r = Inr v \<Longrightarrow> f v = g v) \<Longrightarrow> ebind r f = ebind r g"
  by (cases r) simp_all

lemma collect_length: "collect rs = Inr vs \<Longrightarrow> length vs = length rs"
  by (drule collect_Inr_D) simp

lemma density_single:
  assumes c: "consistent N self" and x: "length x = nat (embedding_size self)"
    and j: "j < nat (num_tables self)"
  shows "log_multivariate_tdensity N self (Vec x) (int j) =
     ebind (solve_triangular N
              (map (map (\<lambda>v. scaleTdistrn self ! j * v)) (table_cholesky_ltriangular_mat self ! j))
              (map2 (-) x (table_means self ! j)) False False)
       (\<lambda>ts. Inr (Scalar (t_logprob N (embedding_size self) (nu self ! j)
                (log_determinants self ! j) (np_sum (map (\<lambda>z. z * z) ts)))))"
proof -
  note cd = consistentD [OF c]
  have gets: "np_getitem (table_counts self) (int j) = Inr (table_counts self ! j)"
    "np_getitem (table_means self) (int j) = Inr (table_means self ! j)"
    "np_getitem (table_cholesky_ltriangular_mat self) (int j) = Inr (table_cholesky_ltriangular_mat self ! j)"
    "np_getitem (log_determinants self) (int j) = Inr (log_determinants self ! j)"
    using j cd by (simp_all add: np_getitem_nat)
  have xm: "broadcast (-) x (table_means self ! j) = Inr (map2 (-) x (table_means self ! j))"
    using cd(4,5) j x by (simp add: broadcast_same list_all_length)
  have nu_j: "nu self ! j = prior_nu (prior self) + table_counts self ! j - np_float N (embedding_size self) + 1"
    using cd(9) cd(3) j by simp
  have sc_j: "scaleTdistrn self ! j = np_sqrt N ((prior_kappa (prior self) + table_counts self ! j + 1) /
                 ((prior_kappa (prior self) + table_counts self ! j) *
                  (prior_nu (prior self) + table_counts self ! j - np_float N (embedding_size self) + 1)))"
    using cd(8) cd(3) j by simp
  show ?thesis
    unfolding nu_j sc_j by (simp add: gets Let_def xm)
qed

lemma density_tables:
  assumes c: "consistent N self" and x: "length x = nat (embedding_size self)"
  shows "log_multivariate_tdensity_tables N self x =
     ebind (collect (map (\<lambda>j.
         ebind (solve_triangular N
              (map (map (\<lambda>v. scaleTdistrn self ! j * v)) (table_cholesky_ltriangular_mat self ! j))
              (map2 (-) x (table_means self ! j)) False True)
           (\<lambda>ts. Inr (np_sum (map (\<lambda>z. z * z) ts)))) [0..<nat (num_tables self)]))
       (\<lambda>val. Inr (map (\<lambda>j. t_logprob N (embedding_size self) (nu self ! j)
                (log_determinants self ! j) (val ! j)) [0..<nat (num_tables self)]))"
proof -
  define K where "K = nat (num_tables self)"
  note cd = consistentD [OF c]
  have K: "num_tables self = int K" using cd(1) by (simp add: K_def)
  have lens: "length (table_counts self) = K" "length (table_means self) = K"
    "length (log_determinants self) = K" "length (table_cholesky_ltriangular_mat self) = K"
    "length (scaleTdistrn self) = K" "length (nu self) = K"
    using cd by (simp_all add: K_def)
  define xmm where "xmm = map (\<lambda>mean. map2 (-) x mean) (table_means self)"
  define ltri where "ltri = map2 (\<lambda>s L. map (map (\<lambda>v. s * v)) L)
      (scaleTdistrn self) (table_cholesky_ltriangular_mat self)"
  have 1: "collect (map (\<lambda>mean. broadcast (-) x mean) (table_means self)) = Inr xmm"
    unfolding xmm_def using cd(5) x by (intro collect_broadcast_rows) simp
  have 2: "broadcast (\<lambda>s L. map (map (\<lambda>v. s * v)) L)
      (scaleTdistrn self) (table_cholesky_ltriangular_mat self) = Inr ltri"
    unfolding ltri_def by (simp add: broadcast_same lens)
  define body where "body = (\<lambda>j. ebind (solve_triangular N
              (map (map (\<lambda>v. scaleTdistrn self ! j * v)) (table_cholesky_ltriangular_mat self ! j))
              (map2 (-) x (table_means self ! j)) False True)
      (\<lambda>ts. Inr (np_sum (map (\<lambda>z. z * z) ts))))"
  have 3: "map (\<lambda>table.
         ebind (np_getitem ltri table) (\<lambda>a.
         ebind (np_getitem xmm table) (\<lambda>b.
         ebind (solve_triangular N a b False True) (\<lambda>table_solved.
           Inr (np_sum (map (\<lambda>z. z * z) table_solved))))))
         [0..int K - 1] = map body [0..<K]"
    unfolding upto_as_upt
    by (simp add: body_def np_getitem_nat ltri_def xmm_def lens)
  define final where "final = (\<lambda>val. (let D = np_float N (embedding_size self); two = np_float N 2 in
     ebind (broadcast (+)
              (map (\<lambda>n. gammaln N (n / two) + D / two * (np_log N n + np_log N (math_pi N))) (nu self))
              (log_determinants self)) (\<lambda>s1.
     ebind (broadcast (\<lambda>v n. v / n) val (nu self)) (\<lambda>q.
     ebind (broadcast (*) (map (\<lambda>n. (n + D) / two) (nu self)) (map (\<lambda>e. np_log N (1 + e)) q)) (\<lambda>s2.
     ebind (broadcast (+) s1 s2) (\<lambda>s3.
       broadcast (-) (map (\<lambda>n. gammaln N ((n + D) / two)) (nu self)) s3))))))"
  have t: "log_multivariate_tdensity_tables N self x = ebind (collect (map body [0..<K])) final"
    by (simp add: log_multivariate_tdensity_tables_def 1 2 3 K final_def)
  have f: "final val = Inr (map (\<lambda>j. t_logprob N (embedding_size self) (nu self ! j)
                (log_determinants self ! j) (val ! j)) [0..<K])"
    if "collect (map body [0..<K]) = Inr val" for val
  proof -
    from that have lval: "length val = K" by (drule_tac collect_length) simp
    define D where "D = np_float N (embedding_size self)"
    define two where "two = np_float N 2"
    have "final val = Inr (map2 (-) (map (\<lambda>n. gammaln N ((n + D) / two)) (nu self))
        (map2 (+)
          (map2 (+) (map (\<lambda>n. gammaln N (n / two) + D / two * (np_log N n + np_log N (math_pi N))) (nu self))
             (log_determinants self))
          (map2 (*) (map (\<lambda>n. (n + D) / two) (nu self))
             (map (\<lambda>e. np_log N (1 + e)) (map2 (\<lambda>v n. v / n) val (nu self))))))"
      by (simp add: final_def Let_def broadcast_same lens lval D_def two_def)
    also have "map2 (-) (map (\<lambda>n. gammaln N ((n + D) / two)) (nu self))
        (map2 (+)
          (map2 (+) (map (\<lambda>n. gammaln N (n / two) + D / two * (np_log N n + np_log N (math_pi N))) (nu self))
             (log_determinants self))
          (map2 (*) (map (\<lambda>n. (n + D) / two) (nu self))
             (map (\<lambda>e. np_log N (1 + e)) (map2 (\<lambda>v n. v / n) val (nu self)))))
      = map (\<lambda>j. t_logprob N (embedding_size self) (nu self ! j)
                (log_determinants self ! j) (val ! j)) [0..<K]"
      by (intro nth_equalityI) (simp_all add: lens lval t_logprob_def D_def two_def)
    finally show ?thesis .
  qed
  show ?thesis
    unfolding t K_def [symmetric] body_def [symmetric]
    by (rule ebind_cong) (rule f)
qed

lemma solve_True_iff:
  "solve_triangular N a b l True = Inr z \<longleftrightarrow>
   list_all (list_all (np_isfinite N)) a \<and> list_all (np_isfinite N) b \<and>
   solve_triangular N a b l False = Inr z"
  by (auto simp: solve_triangular_def)




section \<open>Facts about the sampler\<close>

lemma retract_model: "retract s w = Inr s' \<Longrightarrow> model s' = model s \<and> rng s' = rng s"
  by (auto simp: retract_def ebind_Inr_iff)

lemma commit_model: "commit R s w p = Inr s' \<Longrightarrow> model s' = model s"
  by (auto simp: commit_def ebind_Inr_iff split: prod.splits)

lemma token_cases:
  obtains (lookup) e where "np_getitem (vocab_embeddings (model s)) (snd wc) = Inl e"
      "token N R s wc = ([], Inl e)"
  | (retract) x e where "np_getitem (vocab_embeddings (model s)) (snd wc) = Inr x"
      "retract s (fst wc) = Inl e" "token N R s wc = ([], Inl e)"
  | (resample) x s1 e where "np_getitem (vocab_embeddings (model s)) (snd wc) = Inr x"
      "retract s (fst wc) = Inr s1"
      "ebind (posterior N (model s1) (doc_table_counts s1) x) (commit R s1 (fst wc)) = Inl e"
      "token N R s wc = ([(Retracted, s1)], Inl e)"
  | (commit) x s1 s2 where "np_getitem (vocab_embeddings (model s)) (snd wc) = Inr x"
      "retract s (fst wc) = Inr s1"
      "ebind (posterior N (model s1) (doc_table_counts s1) x) (commit R s1 (fst wc)) = Inr s2"
      "token N R s wc = ([(Retracted, s1), (Committed, s2)], Inr s2)"
proof -
  obtain w c where wc: "wc = (w, c)" by (cases wc)
  show ?thesis
  proof (cases "np_getitem (vocab_embeddings (model s)) (snd wc)")
  case (Inl e)
  then have "token N R s wc = ([], Inl e)" by (simp add: token_def wc)
  with Inl show ?thesis by (rule lookup)
next
  case x: (Inr x)
  show ?thesis
  proof (cases "retract s (fst wc)")
    case (Inl e)
    with x have "token N R s wc = ([], Inl e)" by (simp add: token_def wc)
    with x Inl show ?thesis by (rule retract)
  next
    case s1: (Inr s1)
    show ?thesis
    proof (cases "ebind (posterior N (model s1) (doc_table_counts s1) x) (commit R s1 (fst wc))")
      case (Inl e)
      with x s1 have "token N R s wc = ([(Retracted, s1)], Inl e)"
        by (simp add: token_def wc)
      with x s1 Inl show ?thesis by (rule resample)
    next
      case (Inr s2)
      with x s1 have "token N R s wc = ([(Retracted, s1), (Committed, s2)], Inr s2)"
        by (simp add: token_def wc)
      with x s1 Inr show ?thesis by (rule commit)
    qed
  qed
qed
qed

lemma sweep_Cons_fail:
  "token N R s wc = (tr, Inl e) \<Longrightarrow> sweep N R s (wc # rest) = (tr, Inl e)"
  by simp

lemma sweep_Cons_ok:
  "token N R s wc = (tr, Inr s') \<Longrightarrow>
   sweep N R s (wc # rest) = (tr @ fst (sweep N R s' rest), snd (sweep N R s' rest))"
  by (simp split: prod.splits)

lemma sweeps_Suc_fail:
  "sweep N R s (enumerate 0 doc) = (tr, Inl e) \<Longrightarrow> sweeps N R doc (Suc n) s = (tr, Inl e)"
  by simp

lemma sweeps_Suc_ok:
  "sweep N R s (enumerate 0 doc) = (tr, Inr s') \<Longrightarrow>
   sweeps N R doc (Suc n) s = (tr @ fst (sweeps N R doc n s'), snd (sweeps N R doc n s'))"
  by (simp split: prod.splits)

lemma run_sat_fail: "list_all P tr \<Longrightarrow> run_sat P I (tr, Inl e)"
  by (simp add: run_sat_def)

lemma run_sat_seq:
  "run_sat P I (tr, Inr s) \<Longrightarrow> run_sat P I run \<Longrightarrow> run_sat P I (tr @ fst run, snd run)"
  by (simp add: run_sat_def)

lemma sweep_sat:
  assumes step: "\<And>s wc. I s \<Longrightarrow> run_sat P I (token N R s wc)"
  shows "I s \<Longrightarrow> run_sat P I (sweep N R s wcs)"
proof (induction wcs arbitrary: s)
  case Nil
  then show ?case by (simp add: run_sat_def)
next
  case (Cons wc wcs)
  obtain tr out where t: "token N R s wc = (tr, out)" by (cases "token N R s wc")
  from step [OF Cons.prems, of wc] t have ts: "run_sat P I (tr, out)" by simp
  show ?case
  proof (cases out)
    case (Inl e)
    with t have "sweep N R s (wc # wcs) = (tr, Inl e)" by (intro sweep_Cons_fail) simp
    with ts Inl show ?thesis by simp
  next
    case (Inr s1)
    with t have eq: "sweep N R s (wc # wcs) = (tr @ fst (sweep N R s1 wcs), snd (sweep N R s1 wcs))"
      by (intro sweep_Cons_ok) simp
    from ts Inr have "I s1" by (simp add: run_sat_def)
    then have "run_sat P I (sweep N R s1 wcs)" by (rule Cons.IH)
    with ts Inr show ?thesis unfolding eq by (intro run_sat_seq) simp_all
  qed
qed

lemma sweeps_sat:
  assumes step: "\<And>s wc. I s \<Longrightarrow> run_sat P I (token N R s wc)"
  shows "I s \<Longrightarrow> run_sat P I (sweeps N R doc n s)"
proof (induction n arbitrary: s)
  case 0
  then show ?case by (simp add: run_sat_def)
next
  case (Suc n)
  obtain tr out where t: "sweep N R s (enumerate 0 doc) = (tr, out)"
    by (cases "sweep N R s (enumerate 0 doc)")
  from sweep_sat [of I P N R s "enumerate 0 doc", OF step Suc.prems] t
  have ts: "run_sat P I (tr, out)" by simp
  show ?case
  proof (cases out)
    case (Inl e)
    with t have "sweeps N R doc (Suc n) s = (tr, Inl e)" by (intro sweeps_Suc_fail) simp
    with ts Inl show ?thesis by simp
  next
    case (Inr s1)
    with t have eq: "sweeps N R doc (Suc n) s =
        (tr @ fst (sweeps N R doc n s1), snd (sweeps N R doc n s1))"
      by (intro sweeps_Suc_ok) simp
    from ts Inr have "I s1" by (simp add: run_sat_def)
    then have "run_sat P I (sweeps N R doc n s1)" by (rule Suc.IH)
    with ts Inr show ?thesis unfolding eq by (intro run_sat_seq) simp_all
  qed
qed

lemma sample_run_cases:
  obtains (randint) e where "randint R r (num_tables self) (length doc) = Inl e"
      "sample_run N R self doc n r = ([], Inl e)"
  | (bincount) A r' e where "randint R r (num_tables self) (length doc) = Inr (A, r')"
      "np_bincount A (num_tables self) = Inl e" "sample_run N R self doc n r = ([], Inl e)"
  | (loop) A r' H where "randint R r (num_tables self) (length doc) = Inr (A, r')"
      "np_bincount A (num_tables self) = Inr H"
      "sample_run N R self doc n r =
         ((Started, \<lparr>model = self, table_assignments = A, doc_table_counts = H, rng = r'\<rparr>) #
            fst (sweeps N R doc (nat n)
               \<lparr>model = self, table_assignments = A, doc_table_counts = H, rng = r'\<rparr>),
          snd (sweeps N R doc (nat n)
               \<lparr>model = self, table_assignments = A, doc_table_counts = H, rng = r'\<rparr>))"
proof (cases "randint R r (num_tables self) (length doc)")
  case (Inl e)
  then have "sample_run N R self doc n r = ([], Inl e)" by (simp add: sample_run_def)
  with Inl show ?thesis by (rule randint)
next
  case (Inr Ar)
  obtain A r' where Ar: "Ar = (A, r')" by (cases Ar)
  show ?thesis
  proof (cases "np_bincount A (num_tables self)")
    case (Inl e)
    from Inr Ar have r: "randint R r (num_tables self) (length doc) = Inr (A, r')" by simp
    with Inl have "sample_run N R self doc n r = ([], Inl e)" by (simp add: sample_run_def)
    with r Inl show ?thesis by (rule bincount)
  next
    case H: (Inr H)
    from Inr Ar have r: "randint R r (num_tables self) (length doc) = Inr (A, r')" by simp
    with H have "sample_run N R self doc n r =
         ((Started, \<lparr>model = self, table_assignments = A, doc_table_counts = H, rng = r'\<rparr>) #
            fst (sweeps N R doc (nat n)
               \<lparr>model = self, table_assignments = A, doc_table_counts = H, rng = r'\<rparr>),
          snd (sweeps N R doc (nat n)
               \<lparr>model = self, table_assignments = A, doc_table_counts = H, rng = r'\<rparr>))"
      by (simp add: sample_run_def Let_def split: prod.splits)
    with r H show ?thesis by (rule loop)
  qed
qed

lemma sample_run_sat:
  assumes step: "\<And>s wc. I s \<Longrightarrow> run_sat P I (token N R s wc)"
    and init: "\<And>A r' H. randint R r (num_tables self) (length doc) = Inr (A, r') \<Longrightarrow>
        np_bincount A (num_tables self) = Inr H \<Longrightarrow>
        I \<lparr>model = self, table_assignments = A, doc_table_counts = H, rng = r'\<rparr> \<and>
        P (Started, \<lparr>model = self, table_assignments = A, doc_table_counts = H, rng = r'\<rparr>)"
  shows "run_sat P I (sample_run N R self doc n r)"
proof (cases rule: sample_run_cases [of R r self doc N n])
  case (randint e)
  then show ?thesis by (simp add: run_sat_def)
next
  case (bincount A r' e)
  then show ?thesis by (simp add: run_sat_def)
next
  case (loop A r' H)
  define s where "s = \<lparr>model = self, table_assignments = A, doc_table_counts = H, rng = r'\<rparr>"
  from init [OF loop(1,2)] have i: "I s" "P (Started, s)" by (simp_all add: s_def)
  have "run_sat P I (sweeps N R doc (nat n) s)"
    using step i(1) by (rule sweeps_sat [of I P N R s doc "nat n"])
  with i(2) show ?thesis unfolding loop(3) s_def [symmetric] by (simp add: run_sat_def)
qed

lemma token_keeps_model:
  assumes "model s = m"
  shows "run_sat (\<lambda>ps. model (snd ps) = m) (\<lambda>s. model s = m) (token N R s wc)"
proof (cases rule: token_cases [of s wc N R])
  case (lookup e)
  then show ?thesis by (simp add: run_sat_def)
next
  case (retract x e)
  then show ?thesis by (simp add: run_sat_def)
next
  case (resample x s1 e)
  with assms retract_model [of s "fst wc" s1] show ?thesis by (simp add: run_sat_def)
next
  case (commit x s1 s2)
  from commit(3) obtain p where "commit R s1 (fst wc) p = Inr s2"
    by (auto simp: ebind_Inr_iff)
  then have "model s2 = model s1" by (rule commit_model)
  with assms commit retract_model [of s "fst wc" s1] show ?thesis by (simp add: run_sat_def)
qed

lemma np_getitem_outside:
  "i < - int (length xs) \<or> int (length xs) \<le> i \<Longrightarrow> np_getitem xs i = Inl IndexError"
  by (auto simp: np_getitem_def np_index_def)

lemma token_trace_short: "length (fst (token N R s wc)) \<le> 2"
  by (cases rule: token_cases [of s wc N R]) simp_all

lemma token_unknown:
  assumes "c < - int (length (vocab_embeddings (model s))) \<or>
           int (length (vocab_embeddings (model s))) \<le> c"
  shows "token N R s (w, c) = ([], Inl IndexError)"
  using np_getitem_outside [OF assms] by (simp add: token_def)

lemma sweep_unknown_token:
  assumes "model s = self" and "j < length doc"
    and "doc ! j < - int (length (vocab_embeddings self)) \<or>
         int (length (vocab_embeddings self)) \<le> doc ! j"
  shows "isl (snd (sweep N R s (enumerate k doc))) \<and>
         length (fst (sweep N R s (enumerate k doc))) \<le> 2 * j"
  using assms
proof (induction doc arbitrary: s j k)
  case Nil
  then show ?case by simp
next
  case (Cons c doc)
  have e: "enumerate k (c # doc) = (k, c) # enumerate (Suc k) doc" by simp
  show ?case
  proof (cases j)
    case 0
    with Cons.prems have "token N R s (k, c) = ([], Inl IndexError)"
      by (intro token_unknown) simp
    then show ?thesis unfolding e by simp
  next
    case (Suc j')
    obtain tr out where t: "token N R s (k, c) = (tr, out)" by (cases "token N R s (k, c)")
    have len: "length tr \<le> 2" using token_trace_short [of N R s "(k, c)"] t by simp
    show ?thesis
    proof (cases out)
      case (Inl e)
      with t have "sweep N R s ((k, c) # enumerate (Suc k) doc) = (tr, Inl e)"
        by (intro sweep_Cons_fail) simp
      with len Suc show ?thesis unfolding e by simp
    next
      case (Inr s1)
      with t have eq: "sweep N R s ((k, c) # enumerate (Suc k) doc) =
          (tr @ fst (sweep N R s1 (enumerate (Suc k) doc)), snd (sweep N R s1 (enumerate (Suc k) doc)))"
        by (intro sweep_Cons_ok) simp
      from token_keeps_model [OF Cons.prems(1), of N R "(k, c)"] t Inr
      have "model s1 = self" by (simp add: run_sat_def)
      moreover from Cons.prems Suc have "j' < length doc"
        "doc ! j' < - int (length (vocab_embeddings self)) \<or>
         int (length (vocab_embeddings self)) \<le> doc ! j'" by simp_all
      ultimately have "isl (snd (sweep N R s1 (enumerate (Suc k) doc))) \<and>
         length (fst (sweep N R s1 (enumerate (Suc k) doc))) \<le> 2 * j'"
        by (rule Cons.IH)
      with len Suc show ?thesis unfolding e eq by simp
    qed
  qed
qed

lemma zero_random_simps [simp]:
  "randint zero_random r high n = (if high \<le> 0 then Inl ValueError else Inr (replicate n 0, r))"
  "choice zero_random r a p = (if a \<le> 0 then Inl ValueError else Inr (0, r))"
  by (simp_all add: zero_random_def)

lemma example_model_simps [simp]:
  "num_tables example_model = 2" "embedding_size example_model = 2"
  "vocab_embeddings example_model = [[1, 1], [0, 0]]" "alpha example_model = 1"
  by (simp_all add: example_model_def example_embeddings_def)

lemma bincount_zeros_1: "np_bincount [0] 2 = Inr [1, 0]"
  by (simp add: np_bincount_def upt_rec)

lemma bincount_zeros_2: "np_bincount [0, 0] 2 = Inr [2, 0]"
  by (simp add: np_bincount_def upt_rec)

section \<open>The sampler leaves the model alone (C9)\<close>

text \<open>
  C9. In every frame a call of \<open>sample\<close> passes through, and in the frame it ends in,
  the model object is the one the call was given: counts, means, Cholesky factors,
  log-determinants, caches and prior are never written, whatever the document, the number
  of iterations and the draws, and whether or not the call raises.
\<close>

theorem sample_leaves_model_unchanged:
  "(\<forall>(p, s) \<in> set (fst (sample_run N R self doc num_iterations r)). model s = self) \<and>
   (\<forall>s. snd (sample_run N R self doc num_iterations r) = Inr s \<longrightarrow> model s = self)"
proof -
  have "run_sat (\<lambda>ps. model (snd ps) = self) (\<lambda>s. model s = self)
      (sample_run N R self doc num_iterations r)"
    by (rule sample_run_sat) (simp_all add: token_keeps_model)
  then show ?thesis
    unfolding run_sat_def list_all_iff by (simp add: case_prod_unfold)
qed

theorem sample_leaves_model_unchanged_witness:
  "(Started, \<lparr>model = example_model, table_assignments = [0], doc_table_counts = [1, 0], rng = ()\<rparr>)
     \<in> set (fst (sample_run real_numpy zero_random example_model [0] 0 ())) \<and>
   model (snd (hd (fst (sample_run real_numpy zero_random example_model [0] 0 ()))))
     = example_model"
  using sample_leaves_model_unchanged [of real_numpy zero_random example_model "[0]" 0 "()"]
  by (simp add: sample_run_def bincount_zeros_1 Let_def)

section \<open>A negative number of iterations (C7)\<close>

text \<open>
  C7, as the code has it. For \<open>num_iterations \<le> 0\<close> the loop over \<open>range(num_iterations)\<close>
  has no round: the call returns the initial random assignment, and raises only what
  \<open>randint\<close> and \<open>bincount\<close> raise for the initial draw. No check of \<open>num_iterations\<close> exists.
\<close>

theorem sample_ignores_negative_iterations:
  "num_iterations \<le> 0 \<Longrightarrow>
   sample N R self doc num_iterations r =
     ebind (randint R r (num_tables self) (length doc)) (\<lambda>(A, r').
     ebind (np_bincount A (num_tables self)) (\<lambda>H. Inr A))"
  by (cases rule: sample_run_cases [of R r self doc N num_iterations])
     (simp_all add: sample_def)

text \<open>
  C7 as stated fails: with \<open>num_iterations = -1\<close> the call returns an assignment.
\<close>

theorem sample_accepts_negative_iterations:
  "sample real_numpy zero_random example_model [0] (- 1) () = Inr [0]"
  by (simp add: sample_def sample_run_def bincount_zeros_1 Let_def)

theorem sample_ignores_negative_iterations_witness:
  "(- 3 :: int) \<le> 0 \<and> sample real_numpy zero_random example_model [0, 1] (- 3) () = Inr [0, 0]"
  using sample_ignores_negative_iterations [of "- 3" real_numpy zero_random example_model "[0, 1]" "()"]
  by (simp add: bincount_zeros_2)

section \<open>Tokens outside the vocabulary (C5)\<close>

text \<open>
  C5, as the code has it. Token ids are not checked before sampling. With at least one
  iteration, a document with an id outside \<open>[-V, V)\<close> at position \<open>j\<close> makes the call raise,
  and no later than at position \<open>j\<close> of the first sweep: at most the frames of the \<open>j\<close>
  tokens before it are recorded after the start (two per token). Ids in \<open>[-V, 0)\<close> count
  from the end of the vocabulary, as every numpy index does.
\<close>

theorem sample_rejects_unknown_token_late:
  assumes "1 \<le> num_iterations" and "j < length doc"
    and "doc ! j < - int (length (vocab_embeddings self)) \<or>
         int (length (vocab_embeddings self)) \<le> doc ! j"
  shows "isl (sample N R self doc num_iterations r) \<and>
         length (fst (sample_run N R self doc num_iterations r)) \<le> 1 + 2 * j"
proof (cases rule: sample_run_cases [of R r self doc N num_iterations])
  case (randint e)
  then show ?thesis by (simp add: sample_def)
next
  case (bincount A r' e)
  then show ?thesis by (simp add: sample_def)
next
  case (loop A r' H)
  define s where "s = \<lparr>model = self, table_assignments = A, doc_table_counts = H, rng = r'\<rparr>"
  have m: "model s = self" by (simp add: s_def)
  obtain n' where n': "nat num_iterations = Suc n'"
    using assms(1) by (cases "nat num_iterations") simp_all
  obtain tr out where t: "sweep N R s (enumerate 0 doc) = (tr, out)"
    by (cases "sweep N R s (enumerate 0 doc)")
  from sweep_unknown_token [OF m assms(2,3), of N R 0] t
  have f: "isl out" "length tr \<le> 2 * j" by simp_all
  then obtain e where e: "out = Inl e" by (cases out) simp_all
  with t have "sweeps N R doc (Suc n') s = (tr, Inl e)" by (intro sweeps_Suc_fail) simp
  with f(2) show ?thesis
    unfolding sample_def loop(3) s_def [symmetric] n' by simp
qed

text \<open>
  C5 as stated fails: with \<open>num_iterations = 0\<close> a document holding the id 7, for a
  vocabulary of two words, is accepted and an assignment is returned.
\<close>

theorem sample_accepts_unknown_token:
  "sample real_numpy zero_random example_model [7] 0 () = Inr [0]"
  by (simp add: sample_def sample_run_def bincount_zeros_1 Let_def)

theorem sample_rejects_unknown_token_late_witness:
  "(1::int) \<le> 1 \<and> (1::nat) < length [0, 7 :: int] \<and>
   int (length (vocab_embeddings example_model)) \<le> [0, 7] ! 1 \<and>
   isl (sample real_numpy zero_random example_model [0, 7] 1 ()) \<and>
   length (fst (sample_run real_numpy zero_random example_model [0, 7] 1 ())) \<le> 1 + 2 * 1"
  using sample_rejects_unknown_token_late [of 1 1 "[0, 7]" example_model real_numpy zero_random "()"]
  by simp

section \<open>The sum of the histogram (C4)\<close>

lemma np_index_less: "np_index n i = Inr j \<Longrightarrow> j < n"
  by (auto simp: np_index_def split: if_splits)

lemma np_get_set:
  "np_getitem xs i = Inr h \<Longrightarrow> np_setitem xs i v = Inr xs' \<Longrightarrow>
   \<exists>j<length xs. h = xs ! j \<and> xs' = xs[j := v]"
proof -
  assume g: "np_getitem xs i = Inr h" and u: "np_setitem xs i v = Inr xs'"
  from g obtain j where j: "np_index (length xs) i = Inr j" and h: "h = xs ! j"
    by (auto simp: np_getitem_def ebind_Inr_iff)
  from j have "j < length xs" by (rule np_index_less)
  moreover from u j have "xs' = xs[j := v]" by (simp add: np_setitem_def)
  ultimately show ?thesis using h by blast
qed

lemma sum_list_update_int:
  fixes xs :: "int list"
  shows "j < length xs \<Longrightarrow> sum_list (xs[j := v]) = sum_list xs - xs ! j + v"
proof (induction xs arbitrary: j)
  case Nil
  then show ?case by simp
next
  case (Cons x xs)
  then show ?case by (cases j) simp_all
qed

lemma retract_sum:
  assumes "retract s w = Inr s1"
  shows "sum_list (doc_table_counts s1) = sum_list (doc_table_counts s) - 1"
proof -
  from assms obtain old h H where
      g: "np_getitem (doc_table_counts s) old = Inr h"
      and u: "np_setitem (doc_table_counts s) old (h - 1) = Inr H"
      and s1: "doc_table_counts s1 = H"
    by (auto simp: retract_def ebind_Inr_iff)
  from np_get_set [OF g u] obtain j where "j < length (doc_table_counts s)"
    "h = doc_table_counts s ! j" "H = (doc_table_counts s)[j := h - 1]" by blast
  then show ?thesis by (simp add: s1 sum_list_update_int)
qed

lemma commit_sum:
  assumes "commit R s w p = Inr s2"
  shows "sum_list (doc_table_counts s2) = sum_list (doc_table_counts s) + 1"
proof -
  from assms obtain new h H where
      g: "np_getitem (doc_table_counts s) new = Inr h"
      and u: "np_setitem (doc_table_counts s) new (h + 1) = Inr H"
      and s2: "doc_table_counts s2 = H"
    by (auto simp: commit_def ebind_Inr_iff split: prod.splits)
  from np_get_set [OF g u] obtain j where "j < length (doc_table_counts s)"
    "h = doc_table_counts s ! j" "H = (doc_table_counts s)[j := h + 1]" by blast
  then show ?thesis by (simp add: s2 sum_list_update_int)
qed

lemma token_sum:
  assumes "sum_list (doc_table_counts s) = n"
  shows "run_sat (\<lambda>ps. sum_list (doc_table_counts (snd ps)) = (if fst ps = Retracted then n - 1 else n))
           (\<lambda>s. sum_list (doc_table_counts s) = n) (token N R s wc)"
proof (cases rule: token_cases [of s wc N R])
  case (lookup e)
  then show ?thesis by (simp add: run_sat_def)
next
  case (retract x e)
  then show ?thesis by (simp add: run_sat_def)
next
  case (resample x s1 e)
  with assms retract_sum [of s "fst wc" s1] show ?thesis by (simp add: run_sat_def)
next
  case (commit x s1 s2)
  from commit(3) obtain p where "commit R s1 (fst wc) p = Inr s2"
    by (auto simp: ebind_Inr_iff)
  then have "sum_list (doc_table_counts s2) = sum_list (doc_table_counts s1) + 1"
    by (rule commit_sum)
  with assms commit retract_sum [of s "fst wc" s1] show ?thesis by (simp add: run_sat_def)
qed

lemma le_foldr_max: "x \<in> set xs \<Longrightarrow> x \<le> foldr max xs (b::int)"
  by (induction xs) auto

lemma sum_count_list:
  "\<forall>x \<in> set xs. 0 \<le> x \<and> x < int m \<Longrightarrow>
   (\<Sum>k\<leftarrow>[0..<m]. int (count_list xs (int k))) = int (length xs)"
proof (induction xs)
  case Nil
  show ?case by simp
next
  case (Cons x xs)
  then have x: "0 \<le> x" "nat x < m" by auto
  have "(\<Sum>k\<leftarrow>[0..<m]. int (count_list (x # xs) (int k))) =
        (\<Sum>k\<leftarrow>[0..<m]. int (count_list xs (int k)) + (if k = nat x then 1 else 0))"
    using x(1) by (intro arg_cong [where f = sum_list] map_cong) auto
  also have "\<dots> = (\<Sum>k\<leftarrow>[0..<m]. int (count_list xs (int k))) + (\<Sum>k\<leftarrow>[0..<m]. if k = nat x then 1 else 0)"
    by (simp add: sum_list_addf)
  also have "(\<Sum>k\<leftarrow>[0..<m]. if k = nat x then 1 else 0) = (1::int)"
    using x(2) by (simp add: interv_sum_list_conv_sum_set_nat)
  finally show ?case using Cons by simp
qed

lemma bincount_sum:
  assumes "np_bincount xs K = Inr H"
  shows "sum_list H = int (length xs)"
proof -
  define m where "m = max (nat K) (nat (foldr max xs (- 1) + 1))"
  from assms have nn: "\<forall>x \<in> set xs. 0 \<le> x"
    and H: "H = map (\<lambda>k. int (count_list xs (int k))) [0..<m]"
    by (auto simp: np_bincount_def m_def list_ex_iff split: if_splits)
  have "\<forall>x \<in> set xs. 0 \<le> x \<and> x < int m"
  proof
    fix x assume x: "x \<in> set xs"
    then have "x \<le> foldr max xs (- 1)" by (rule le_foldr_max)
    with nn x show "0 \<le> x \<and> x < int m" by (auto simp: m_def)
  qed
  then show ?thesis unfolding H by (rule sum_count_list)
qed

lemma retracted_in_token:
  assumes "np_getitem (vocab_embeddings (model s)) c = Inr x" and "retract s w = Inr s1"
  shows "(Retracted, s1) \<in> set (fst (token N R s (w, c)))"
  using assms by (cases rule: token_cases [of s "(w, c)" N R]) simp_all

lemma token_trace_in_sweep:
  "set (fst (token N R s wc)) \<subseteq> set (fst (sweep N R s (wc # rest)))"
proof -
  obtain tr out where t: "token N R s wc = (tr, out)" by (cases "token N R s wc")
  show ?thesis
  proof (cases out)
    case (Inl e)
    with t have "sweep N R s (wc # rest) = (tr, Inl e)" by (intro sweep_Cons_fail) simp
    with t show ?thesis by simp
  next
    case (Inr s1)
    with t have "sweep N R s (wc # rest) = (tr @ fst (sweep N R s1 rest), snd (sweep N R s1 rest))"
      by (intro sweep_Cons_ok) simp
    with t show ?thesis by simp
  qed
qed

lemma sweep_trace_in_sweeps:
  "set (fst (sweep N R s (enumerate 0 doc))) \<subseteq> set (fst (sweeps N R doc (Suc n) s))"
proof -
  obtain tr out where t: "sweep N R s (enumerate 0 doc) = (tr, out)"
    by (cases "sweep N R s (enumerate 0 doc)")
  show ?thesis
  proof (cases out)
    case (Inl e)
    with t have "sweeps N R doc (Suc n) s = (tr, Inl e)" by (intro sweeps_Suc_fail) simp
    with t show ?thesis by simp
  next
    case (Inr s1)
    with t have "sweeps N R doc (Suc n) s =
        (tr @ fst (sweeps N R doc n s1), snd (sweeps N R doc n s1))"
      by (intro sweeps_Suc_ok) simp
    with t show ?thesis by simp
  qed
qed

lemma rand_ok_zero_random: "rand_ok zero_random"
  by (auto simp: rand_ok_def split: if_splits)

lemma example_retracted_frame:
  "(Retracted, \<lparr>model = example_model, table_assignments = [- 1], doc_table_counts = [0, 0], rng = ()\<rparr>)
     \<in> set (fst (sample_run real_numpy zero_random example_model [0] 1 ()))"
proof -
  define s0 :: "(real, unit) frame" where
    "s0 = \<lparr>model = example_model, table_assignments = [0], doc_table_counts = [1, 0], rng = ()\<rparr>"
  define s1 :: "(real, unit) frame" where
    "s1 = \<lparr>model = example_model, table_assignments = [- 1], doc_table_counts = [0, 0], rng = ()\<rparr>"
  have run: "sample_run real_numpy zero_random example_model [0] 1 () =
      ((Started, s0) # fst (sweeps real_numpy zero_random [0] (Suc 0) s0),
       snd (sweeps real_numpy zero_random [0] (Suc 0) s0))"
    by (simp add: sample_run_def bincount_zeros_1 Let_def s0_def split: prod.splits)
  have "np_getitem (vocab_embeddings (model s0)) 0 = Inr [1, 1]"
    by (simp add: s0_def np_getitem_def np_index_def)
  moreover have "retract s0 0 = Inr s1"
    by (simp add: retract_def s0_def s1_def np_getitem_def np_setitem_def np_index_def)
  ultimately have "(Retracted, s1) \<in> set (fst (token real_numpy zero_random s0 (0, 0)))"
    by (rule retracted_in_token)
  then have "(Retracted, s1) \<in> set (fst (sweep real_numpy zero_random s0 (enumerate 0 [0])))"
    using token_trace_in_sweep [of real_numpy zero_random s0 "(0, 0)" "[]"] by auto
  then have "(Retracted, s1) \<in> set (fst (sweeps real_numpy zero_random [0] (Suc 0) s0))"
    using sweep_trace_in_sweeps [of real_numpy zero_random s0 "[0]" 0] by auto
  then show ?thesis unfolding run s1_def by simp
qed

text \<open>
  C4, as the code has it. With a generator that keeps numpy's promise, in every frame of
  a call on a document of \<open>N\<close> tokens the histogram sums to \<open>N\<close> after the start and after
  every commit, and to \<open>N - 1\<close> between the retract of a token's old table and the commit
  of its new one.
\<close>

theorem histogram_sum_during_sample:
  assumes "rand_ok R"
  shows "\<forall>(p, s) \<in> set (fst (sample_run N R self doc num_iterations r)).
           sum_list (doc_table_counts s) =
             (if p = Retracted then int (length doc) - 1 else int (length doc))"
proof -
  define n where "n = int (length doc)"
  have "run_sat (\<lambda>ps. sum_list (doc_table_counts (snd ps)) = (if fst ps = Retracted then n - 1 else n))
           (\<lambda>s. sum_list (doc_table_counts s) = n) (sample_run N R self doc num_iterations r)"
  proof (rule sample_run_sat)
    fix s :: "('a, 'b) frame" and wc
    assume "sum_list (doc_table_counts s) = n"
    then show "run_sat (\<lambda>ps. sum_list (doc_table_counts (snd ps)) = (if fst ps = Retracted then n - 1 else n))
           (\<lambda>s. sum_list (doc_table_counts s) = n) (token N R s wc)"
      by (rule token_sum)
  next
    fix A r' H
    assume a: "randint R r (num_tables self) (length doc) = Inr (A, r')"
      and b: "np_bincount A (num_tables self) = Inr H"
    from assms a have "length A = length doc" unfolding rand_ok_def by blast
    with bincount_sum [OF b] show
      "sum_list (doc_table_counts \<lparr>model = self, table_assignments = A, doc_table_counts = H, rng = r'\<rparr>) = n \<and>
       sum_list (doc_table_counts (snd (Started, \<lparr>model = self, table_assignments = A, doc_table_counts = H, rng = r'\<rparr>))) =
       (if fst (Started, \<lparr>model = self, table_assignments = A, doc_table_counts = H, rng = r'\<rparr>) = Retracted then n - 1 else n)"
      by (simp add: n_def)
  qed
  then show ?thesis
    unfolding run_sat_def list_all_iff n_def by (simp add: case_prod_unfold)
qed

text \<open>
  C4 as stated fails: on a document of one token, after the retract of the first sweep the
  histogram is \<open>[0, 0]\<close>, of sum 0.
\<close>

theorem histogram_sum_drops_mid_token:
  "(Retracted, \<lparr>model = example_model, table_assignments = [- 1], doc_table_counts = [0, 0], rng = ()\<rparr>)
     \<in> set (fst (sample_run real_numpy zero_random example_model [0] 1 ())) \<and>
   sum_list (doc_table_counts
      \<lparr>model = example_model, table_assignments = [- 1], doc_table_counts = [0, 0], rng = ()\<rparr>)
     \<noteq> int (length [0 :: int])"
  using example_retracted_frame by simp

theorem histogram_sum_during_sample_witness:
  "rand_ok zero_random \<and>
   (Retracted, \<lparr>model = example_model, table_assignments = [- 1], doc_table_counts = [0, 0], rng = ()\<rparr>)
     \<in> set (fst (sample_run real_numpy zero_random example_model [0] 1 ())) \<and>
   sum_list (doc_table_counts
      \<lparr>model = example_model, table_assignments = [- 1], doc_table_counts = [0, 0], rng = ()\<rparr>)
     = int (length [0 :: int]) - 1"
  using histogram_sum_during_sample [OF rand_ok_zero_random, of real_numpy example_model "[0]" 1 "()"]
    example_retracted_frame rand_ok_zero_random
  by simp

section \<open>The posterior the sampler draws from (C2)\<close>

lemma last_p_random_simps [simp]:
  "randint last_p_random r high n = (if high \<le> 0 then Inl ValueError else Inr (replicate n 0, r))"
  "choice last_p_random r a p = (if a \<le> 0 then Inl ValueError else Inr (0, p))"
  by (simp_all add: last_p_random_def)

lemma example_posterior: "posterior real_numpy example_model [0, 0] [1, 1] = Inr [1 / 2, 1 / 2]"
  by (simp add: posterior_def example_tables broadcast_def Let_def)

lemma example_spec_log_posterior:
  "spec_log_posterior real_numpy example_model [0, 0] [1, 1] =
     [ln_Gamma 2 - (ln_Gamma 1 + ln (2 * pi) + 0 + 2 * ln (3 / 2)),
      ln_Gamma 2 - (ln_Gamma 1 + ln (2 * pi) + 0 + 2 * ln 2)]"
  by (simp add: spec_log_posterior_def spec_logDensity_def example_model_def dot_def Let_def
      upt_rec)

lemma example_spec_posterior:
  "spec_posterior real_numpy example_model [0, 0] [1, 1] = [16 / 25, 9 / 25]"
proof -
  define c where "c = ln_Gamma 2 - (ln_Gamma 1 + ln (2 * pi))"
  have l: "ln (3 / 2 :: real) \<le> ln 2" by simp
  have lp: "spec_log_posterior real_numpy example_model [0, 0] [1, 1] =
      [c - 2 * ln (3 / 2), c - 2 * ln 2]"
    unfolding example_spec_log_posterior c_def by simp
  have mx: "Max (set [c - 2 * ln (3 / 2), c - 2 * ln 2]) = c - 2 * ln (3 / 2)"
    using l by (simp add: max_def)
  have "2 * ln (3 / 2 :: real) - 2 * ln 2 = ln (9 / 16)"
  proof -
    have "ln (9 / 16 :: real) = ln ((3 / 4) ^ 2)" by (simp add: power2_eq_square)
    also have "\<dots> = 2 * ln (3 / 4 :: real)" by (simp add: ln_realpow)
    also have "ln (3 / 4 :: real) = ln ((3 / 2) / 2)" by simp
    also have "\<dots> = ln (3 / 2) - ln 2" using ln_div [of "3 / 2 :: real" 2] by simp
    finally show ?thesis by simp
  qed
  then have e: "exp (2 * ln (3 / 2 :: real) - 2 * ln 2) = 9 / 16"
    by simp
  show ?thesis
    unfolding spec_posterior_def lp spec_stabilize_def mx Let_def
    by (simp add: e)
qed


text \<open>
  C2 says that at every position the sampler computes \<open>ln(H[t] + \<alpha>) + logDensity(x, t)\<close>
  for every table, with the \<open>logDensity\<close> of the specification (forward substitution on
  the lower-triangular factor), and draws from the normalised exponential of these. The
  code takes the densities from \<open>log_multivariate_tdensity_tables\<close>, whose call of
  \<open>solve_triangular\<close> (line 295) is without \<open>lower=True\<close> as well: the upper triangle of
  every factor is read. In the example model, for the document of the single token 0,
  of embedding \<open>(1, 1)\<close>, and one iteration, the call starts with \<open>A = [0]\<close> and
  \<open>H = [1, 0]\<close>, retracts to \<open>H = [0, 0]\<close> and calls \<open>choice\<close> with the probabilities
  \<open>(1/2, 1/2)\<close>, the diagonals of the two factors being equal. The posterior of the
  specification for this histogram and embedding is \<open>(16/25, 9/25)\<close>: forward substitution
  with the factor \<open>[[1, 0], [1, 1]]\<close> of table 0 gives \<open>val = 1\<close>, against \<open>val = 2\<close> for
  table 1, hence the weights \<open>4/9\<close> and \<open>1/4\<close>. The order of the scan, the retract
  before and the commit after the draw are those of the specification.
\<close>

theorem sample_posterior_reads_upper_triangle:
  "sample_run real_numpy last_p_random example_model [0] 1 [] =
     ([(Started, \<lparr>model = example_model, table_assignments = [0], doc_table_counts = [1, 0], rng = []\<rparr>),
       (Retracted, \<lparr>model = example_model, table_assignments = [- 1], doc_table_counts = [0, 0], rng = []\<rparr>),
       (Committed, \<lparr>model = example_model, table_assignments = [0], doc_table_counts = [1, 0],
                     rng = [1 / 2, 1 / 2]\<rparr>)],
      Inr \<lparr>model = example_model, table_assignments = [0], doc_table_counts = [1, 0],
            rng = [1 / 2, 1 / 2]\<rparr>) \<and>
   posterior real_numpy example_model [0, 0] [1, 1] = Inr [1 / 2, 1 / 2] \<and>
   spec_posterior real_numpy example_model [0, 0] [1, 1] = [16 / 25, 9 / 25] \<and>
   posterior real_numpy example_model [0, 0] [1, 1] \<noteq>
     Inr (spec_posterior real_numpy example_model [0, 0] [1, 1])"
proof -
  define s0 :: "(real, real list) frame" where
    "s0 = \<lparr>model = example_model, table_assignments = [0], doc_table_counts = [1, 0], rng = []\<rparr>"
  define s1 :: "(real, real list) frame" where
    "s1 = \<lparr>model = example_model, table_assignments = [- 1], doc_table_counts = [0, 0], rng = []\<rparr>"
  define s2 :: "(real, real list) frame" where
    "s2 = \<lparr>model = example_model, table_assignments = [0], doc_table_counts = [1, 0],
            rng = [1 / 2, 1 / 2]\<rparr>"
  have g: "np_getitem (vocab_embeddings (model s0)) 0 = Inr [1, 1]"
    by (simp add: s0_def np_getitem_def np_index_def)
  have r: "retract s0 0 = Inr s1"
    by (simp add: retract_def s0_def s1_def np_getitem_def np_setitem_def np_index_def)
  have p: "posterior real_numpy (model s1) (doc_table_counts s1) [1, 1] = Inr [1 / 2, 1 / 2]"
    by (simp add: s1_def example_posterior)
  have cm: "commit last_p_random s1 0 [1 / 2, 1 / 2] = Inr s2"
    by (simp add: commit_def s1_def s2_def np_getitem_def np_setitem_def np_index_def)
  have tk: "token real_numpy last_p_random s0 (0, 0) = ([(Retracted, s1), (Committed, s2)], Inr s2)"
    by (simp add: token_def g r p cm)
  have "sample_run real_numpy last_p_random example_model [0] 1 [] =
      ([(Started, s0), (Retracted, s1), (Committed, s2)], Inr s2)"
    by (simp add: sample_run_def bincount_zeros_1 Let_def s0_def [symmetric] tk)
  then show ?thesis
    unfolding s0_def s1_def s2_def
    by (simp add: example_posterior example_spec_posterior)
qed

end
